theory Spec2Isabelle
  imports Main "HOL-Library.Sublist"
begin

section \<open>JavaScript values, strings and arrays\<close>

text \<open>
  Both tools receive \<^verbatim>\<open>args: Record<string, unknown>\<close> and cast it to the argument
  interface without any run-time check, so a field may hold any value. The values
  modelled are \<^verbatim>\<open>undefined\<close> (also: the field is absent), \<^verbatim>\<open>null\<close>, the booleans
  and strings. A string is the list of its characters, a character outside ASCII being
  the bytes of its UTF-8 encoding; strings are taken to be well-formed Unicode, on which
  one string occurs in another exactly when its bytes do.
\<close>

datatype js_value = JUndefined | JNull | JBool bool | JStr string

text \<open>Calling a string method on a value that has none raises a \<^verbatim>\<open>TypeError\<close>.\<close>

datatype js_error = TypeError

text \<open>Truthiness, as \<^verbatim>\<open>!x\<close> and \<^verbatim>\<open>x ? a : b\<close> test it.\<close>

fun truthy :: "js_value \<Rightarrow> bool" where
  "truthy JUndefined = False"
| "truthy JNull = False"
| "truthy (JBool b) = b"
| "truthy (JStr s) = (s \<noteq> [])"

text \<open>
  The conversion to a string that template literals, \<^verbatim>\<open>String.prototype.includes\<close>
  (on its argument) and property access (on the key) apply.
\<close>

fun js_to_string :: "js_value \<Rightarrow> string" where
  "js_to_string JUndefined = ''undefined''"
| "js_to_string JNull = ''null''"
| "js_to_string (JBool b) = (if b then ''true'' else ''false'')"
| "js_to_string (JStr s) = s"

text \<open>
  \<^verbatim>\<open>String.prototype.toLowerCase\<close> is a function of the runtime, given by the Unicode case
  mappings (it sends the Kelvin sign to \<^verbatim>\<open>k\<close>, for one). It is not defined here: every
  function of the matcher that calls it takes it as its first argument, named
  \<open>toLowerCase\<close>, and what is proved of the matcher is proved for every such function,
  the runtime's among them.

  On a string of ASCII characters the runtime's function changes the 26 capital letters
  and nothing else. That restriction is \<open>toLowerCaseASCII\<close>; it serves to evaluate the
  matcher on ASCII inputs, and on the catalogue, which is ASCII. \<open>toUpperCaseASCII\<close> is
  the same for \<^verbatim>\<open>toUpperCase\<close>; the program applies it only to the first letter of
  \<^verbatim>\<open>push\<close>, \<^verbatim>\<open>camera\<close> or \<^verbatim>\<open>location\<close>.
\<close>

definition isASCII :: "string \<Rightarrow> bool" where
  "isASCII s = list_all (\<lambda>c. (of_char c :: nat) < 128) s"

definition upperLetters :: string where
  "upperLetters = ''ABCDEFGHIJKLMNOPQRSTUVWXYZ''"

definition lowerLetters :: string where
  "lowerLetters = ''abcdefghijklmnopqrstuvwxyz''"

definition toLowerCaseChar :: "char \<Rightarrow> char" where
  "toLowerCaseChar c =
     (case map_of (zip upperLetters lowerLetters) c of Some l \<Rightarrow> l | None \<Rightarrow> c)"

definition toLowerCaseASCII :: "string \<Rightarrow> string" where
  "toLowerCaseASCII s = map toLowerCaseChar s"

definition toUpperCaseChar :: "char \<Rightarrow> char" where
  "toUpperCaseChar c =
     (case map_of (zip lowerLetters upperLetters) c of Some u \<Rightarrow> u | None \<Rightarrow> c)"

definition toUpperCaseASCII :: "string \<Rightarrow> string" where
  "toUpperCaseASCII s = map toUpperCaseChar s"

text \<open>\<^verbatim>\<open>s.includes(t)\<close>: \<open>t\<close> starts at some position of \<open>s\<close>.\<close>

fun includesStr :: "string \<Rightarrow> string \<Rightarrow> bool" where
  "includesStr [] t = (t = [])"
| "includesStr (c # cs) t = (prefix t (c # cs) \<or> includesStr cs t)"

text \<open>\<^verbatim>\<open>sections.push(x)\<close> appends, \<^verbatim>\<open>sections.join(sep)\<close> concatenates with a separator.\<close>

definition push :: "string list \<Rightarrow> string \<Rightarrow> string list" where
  "push sections x = sections @ [x]"

fun join :: "string \<Rightarrow> string list \<Rightarrow> string" where
  "join sep [] = []"
| "join sep [x] = x"
| "join sep (x # y # ys) = x @ sep @ join sep (y # ys)"

text \<open>
  Reading a property of an object literal: the object's own entry if it has one,
  otherwise what \<^verbatim>\<open>Object.prototype\<close> supplies under that name (a built-in function or
  object, hence truthy and without further properties of interest), otherwise
  \<^verbatim>\<open>undefined\<close>.
\<close>

definition objectPrototypeKeys :: "string list" where
  "objectPrototypeKeys =
     [''constructor'', ''__proto__'', ''hasOwnProperty'', ''isPrototypeOf'',
      ''propertyIsEnumerable'', ''toLocaleString'', ''toString'', ''valueOf'',
      ''__defineGetter__'', ''__defineSetter__'', ''__lookupGetter__'', ''__lookupSetter__'']"

datatype 'a js_prop = OwnProp 'a | InheritedProp | NoProp

definition getProp :: "(string \<times> 'a) list \<Rightarrow> string \<Rightarrow> 'a js_prop" where
  "getProp obj k =
     (case map_of obj k of
        Some v \<Rightarrow> OwnProp v
      | None \<Rightarrow> if k \<in> set objectPrototypeKeys then InheritedProp else NoProp)"

text \<open>The argument record, and the destructuring of one field of it.\<close>

type_synonym js_args = "string \<rightharpoonup> js_value"

definition getArg :: "js_args \<Rightarrow> string \<Rightarrow> js_value" where
  "getArg args k = (case args k of None \<Rightarrow> JUndefined | Some v \<Rightarrow> v)"

text \<open>
  The response envelope \<^verbatim>\<open>{ content: [{ type: "text", text }] }\<close>; the two fields of an
  item are \<open>item_type\<close> and \<open>item_text\<close> here.
\<close>

record content_item =
  item_type :: string
  item_text :: string

definition textContent :: "string \<Rightarrow> content_item list" where
  "textContent t = [\<lparr> item_type = ''text'', item_text = t \<rparr>]"

section \<open>The issue matcher (diagnose-issue)\<close>

record Issue =
  title :: string
  symptoms :: "string list"
  causes :: "string list"
  solutions :: "string list"
  codeExample :: "string option"

definition knownIssues_0_codeExample :: string where
  "knownIssues_0_codeExample =
     ''const appo = getAppo();\<newline>\<newline>if (appo.isNative) {\<newline>  // Full native functionality available\<newline>  const token = await appo.push.getToken();\<newline>} else {\<newline>  // Running in browser - show fallback\<newline>  console.log('Push notifications require the native app');\<newline>}''"

definition knownIssues_0 :: Issue where
  "knownIssues_0 = \<lparr>
     title = ''SDK not working in browser'',
     symptoms =
       [''not working'',
        ''doesn't work'',
        ''nothing happens'',
        ''no response'',
        ''undefined'',
        ''browser'',
        ''web''],
     causes =
       [''The SDK is designed for React Native WebViews and provides graceful fallbacks in browsers'',
        ''Native features require the host app to be running''],
     solutions =
       [''Check `appo.isNative` before using native-only features'',
        ''Implement fallback UI for web browsers'',
        ''Test in the actual React Native WebView environment''],
     codeExample = Some knownIssues_0_codeExample \<rparr>"

definition knownIssues_1_codeExample :: string where
  "knownIssues_1_codeExample =
     ''const status = await appo.push.requestPermission();\<newline>\<newline>if (status === 'denied') {\<newline>  // Check if we're in native\<newline>  if (!appo.isNative) {\<newline>    console.log('Native app required for push notifications');\<newline>  } else {\<newline>    // User denied - prompt to enable in Settings\<newline>    alert('Please enable notifications in your device Settings');\<newline>  }\<newline>}''"

definition knownIssues_1 :: Issue where
  "knownIssues_1 = \<lparr>
     title = ''Permission always denied'',
     symptoms =
       [''permission denied'',
        ''always denied'',
        ''can't get permission'',
        ''requestPermission returns denied''],
     causes =
       [''Running in a browser (fallback returns 'denied')'',
        ''User previously denied permission'',
        ''Permission not configured in app.json/Info.plist''],
     solutions =
       [''Check if running in native context with `appo.isNative`'',
        ''For iOS: Add usage description in Info.plist'',
        ''For Android: Ensure permissions in AndroidManifest.xml'',
        ''Guide users to enable permissions in device Settings''],
     codeExample = Some knownIssues_1_codeExample \<rparr>"

definition knownIssues_2_codeExample :: string where
  "knownIssues_2_codeExample =
     ''async function getPushToken() {\<newline>  const appo = getAppo();\<newline>\<newline>  if (!appo.isNative) {\<newline>    console.log('Push requires native app');\<newline>    return null;\<newline>  }\<newline>\<newline>  const permission = await appo.push.requestPermission();\<newline>  if (permission !== 'granted') {\<newline>    console.log('Permission not granted');\<newline>    return null;\<newline>  }\<newline>\<newline>  const token = await appo.push.getToken();\<newline>  if (!token) {\<newline>    console.log('Could not get push token - check Expo config');\<newline>  }\<newline>\<newline>  return token;\<newline>}''"

definition knownIssues_2 :: Issue where
  "knownIssues_2 = \<lparr>
     title = ''Push token is null'',
     symptoms =
       [''token null'',
        ''token is null'',
        ''getToken returns null'',
        ''no push token'',
        ''undefined token''],
     causes =
       [''Permission not granted before requesting token'',
        ''Running in browser (fallback returns null)'',
        ''Push notification service not configured'',
        ''Network connectivity issues''],
     solutions =
       [''Always request permission before getting token'',
        ''Verify Expo push notification setup'',
        ''Check network connectivity'',
        ''Ensure `appo.isNative` is true''],
     codeExample = Some knownIssues_2_codeExample \<rparr>"

definition knownIssues_3_codeExample :: string where
  "knownIssues_3_codeExample =
     ''async function setupBiometrics() {\<newline>  const appo = getAppo();\<newline>\<newline>  const available = await appo.biometrics.isAvailable();\<newline>\<newline>  if (!available) {\<newline>    // Fallback to PIN or password\<newline>    return { method: 'password' };\<newline>  }\<newline>\<newline>  return { method: 'biometrics' };\<newline>}''"

definition knownIssues_3 :: Issue where
  "knownIssues_3 = \<lparr>
     title = ''Biometrics not available'',
     symptoms =
       [''biometrics not available'',
        ''face id not working'',
        ''touch id not working'',
        ''isAvailable returns false''],
     causes =
       [''Device doesn't have biometric hardware'',
        ''Biometrics not enrolled on device'',
        ''Running in browser/simulator'',
        ''Permission not granted in app settings''],
     solutions =
       [''Check `isAvailable()` before offering biometric auth'',
        ''Test on physical device with enrolled biometrics'',
        ''Provide password/PIN fallback''],
     codeExample = Some knownIssues_3_codeExample \<rparr>"

definition knownIssues_4_codeExample :: string where
  "knownIssues_4_codeExample =
     ''async function capturePhoto() {\<newline>  const appo = getAppo();\<newline>\<newline>  if (!appo.isNative) {\<newline>    // Could use file input fallback\<newline>    return null;\<newline>  }\<newline>\<newline>  const permission = await appo.camera.requestPermission();\<newline>  if (permission !== 'granted') {\<newline>    console.log('Camera permission required');\<newline>    return null;\<newline>  }\<newline>\<newline>  const photo = await appo.camera.takePicture();\<newline>  if (!photo) {\<newline>    console.log('Photo capture cancelled or failed');\<newline>    return null;\<newline>  }\<newline>\<newline>  return photo;\<newline>}''"

definition knownIssues_4 :: Issue where
  "knownIssues_4 = \<lparr>
     title = ''Camera not capturing'',
     symptoms =
       [''camera not working'',
        ''takePicture returns null'',
        ''camera black screen'',
        ''no photo''],
     causes =
       [''Permission not granted'',
        ''Camera in use by another app'',
        ''Running in browser'',
        ''User cancelled capture''],
     solutions =
       [''Request and verify camera permission first'',
        ''Handle null return from takePicture()'',
        ''Check `appo.isNative` before camera operations''],
     codeExample = Some knownIssues_4_codeExample \<rparr>"

definition knownIssues_5_codeExample :: string where
  "knownIssues_5_codeExample =
     ''async function getLocation() {\<newline>  const appo = getAppo();\<newline>\<newline>  const position = await appo.location.getCurrentPosition();\<newline>\<newline>  if (position) {\<newline>    if (position.accuracy > 100) {\<newline>      console.log('Low accuracy:', position.accuracy, 'meters');\<newline>      // Consider retrying or warning user\<newline>    }\<newline>    return position;\<newline>  }\<newline>\<newline>  return null;\<newline>}''"

definition knownIssues_5 :: Issue where
  "knownIssues_5 = \<lparr>
     title = ''Location inaccurate or slow'',
     symptoms =
       [''location inaccurate'',
        ''wrong location'',
        ''location slow'',
        ''takes long time'',
        ''accuracy''],
     causes =
       [''GPS not available (indoors)'',
        ''Low accuracy mode enabled'',
        ''Device location services disabled''],
     solutions =
       [''Check the accuracy property in the returned position'',
        ''Request high accuracy if needed'',
        ''Handle timeout gracefully'',
        ''Show loading state to user''],
     codeExample = Some knownIssues_5_codeExample \<rparr>"

definition knownIssues_6_codeExample :: string where
  "knownIssues_6_codeExample =
     ''async function saveSettings(settings: object) {\<newline>  const appo = getAppo();\<newline>\<newline>  try {\<newline>    await appo.storage.set('user-settings', JSON.stringify(settings));\<newline>    console.log('Settings saved');\<newline>  } catch (error) {\<newline>    console.error('Failed to save settings:', error);\<newline>  }\<newline>}\<newline>\<newline>async function loadSettings() {\<newline>  const appo = getAppo();\<newline>\<newline>  const stored = await appo.storage.get('user-settings');\<newline>  if (stored) {\<newline>    return JSON.parse(stored);\<newline>  }\<newline>  return null;\<newline>}''"

definition knownIssues_6 :: Issue where
  "knownIssues_6 = \<lparr>
     title = ''Storage not persisting'',
     symptoms =
       [''storage not saving'',
        ''data lost'',
        ''storage cleared'',
        ''values disappear''],
     causes =
       [''Using browser localStorage (cleared on app reinstall)'',
        ''Async timing issues'',
        ''Storage quota exceeded''],
     solutions =
       [''Verify storage key consistency'',
        ''Await storage operations'',
        ''Handle storage errors''],
     codeExample = Some knownIssues_6_codeExample \<rparr>"

definition knownIssues_7_codeExample :: string where
  "knownIssues_7_codeExample =
     ''import { useEffect, useState } from 'react';\<newline>import { getAppo } from '@appolabs/appo';\<newline>\<newline>function useNetworkStatus() {\<newline>  const [isOnline, setIsOnline] = useState(true);\<newline>  const appo = getAppo();\<newline>\<newline>  useEffect(() => {\<newline>    // Initial status\<newline>    appo.network.getStatus().then(s => setIsOnline(s?.isConnected ?? true));\<newline>\<newline>    // Listen for changes\<newline>    return appo.network.onChange(status => {\<newline>      setIsOnline(status?.isConnected ?? true);\<newline>    });\<newline>  }, []);\<newline>\<newline>  return isOnline;\<newline>}''"

definition knownIssues_7 :: Issue where
  "knownIssues_7 = \<lparr>
     title = ''Network status incorrect'',
     symptoms =
       [''network status wrong'',
        ''shows offline when online'',
        ''network not updating''],
     causes =
       [''Browser fallback using navigator.onLine (limited accuracy)'',
        ''Network change listener not set up''],
     solutions =
       [''Use onChange listener for real-time updates'',
        ''Don't rely solely on initial status'',
        ''Test actual network requests as backup''],
     codeExample = Some knownIssues_7_codeExample \<rparr>"

definition knownIssues_8_codeExample :: string where
  "knownIssues_8_codeExample =
     ''// Make sure to import types explicitly if needed\<newline>import { getAppo } from '@appolabs/appo';\<newline>import type { PermissionStatus, PushMessage } from '@appolabs/appo';\<newline>\<newline>const appo = getAppo();\<newline>// appo should now have full type inference''"

definition knownIssues_8 :: Issue where
  "knownIssues_8 = \<lparr>
     title = ''Types not working'',
     symptoms =
       [''typescript error'',
        ''type error'',
        ''types not found'',
        ''cannot find module''],
     causes =
       [''Package not properly installed'',
        ''TypeScript configuration issues'',
        ''IDE cache needs refresh''],
     solutions =
       [''Reinstall the package: `pnpm add @appolabs/appo`'',
        ''Ensure moduleResolution is 'bundler' or 'node16'' @ [CHR 0x27],
        ''Restart your IDE/TypeScript server''],
     codeExample = Some knownIssues_8_codeExample \<rparr>"

definition knownIssues :: "Issue list" where
  "knownIssues = [knownIssues_0, knownIssues_1, knownIssues_2, knownIssues_3, knownIssues_4, knownIssues_5, knownIssues_6, knownIssues_7, knownIssues_8]"
text \<open>
  The three constants of \<^verbatim>\<open>diagnoseIssue\<close>, as functions of what they are computed from;
  \<open>toLowerCase\<close> is the runtime's function.
\<close>

definition matchedIssues :: "(string \<Rightarrow> string) \<Rightarrow> string \<Rightarrow> Issue list" where
  "matchedIssues toLowerCase symptom =
     (let searchTerms = toLowerCase symptom
      in filter (\<lambda>issue. list_ex (\<lambda>s. includesStr searchTerms (toLowerCase s)) (symptoms issue))
           knownIssues)"

definition featureIssues :: "(string \<Rightarrow> string) \<Rightarrow> string \<Rightarrow> js_value \<Rightarrow> Issue list" where
  "featureIssues toLowerCase symptom feature =
     (if truthy feature
      then filter
             (\<lambda>issue. includesStr (toLowerCase (title issue)) (js_to_string feature) \<or>
                       list_ex (\<lambda>s. includesStr s (js_to_string feature)) (symptoms issue))
             (matchedIssues toLowerCase symptom)
      else matchedIssues toLowerCase symptom)"

definition relevantIssues :: "(string \<Rightarrow> string) \<Rightarrow> string \<Rightarrow> js_value \<Rightarrow> Issue list" where
  "relevantIssues toLowerCase symptom feature =
     (if length (featureIssues toLowerCase symptom feature) > 0
      then featureIssues toLowerCase symptom feature
      else matchedIssues toLowerCase symptom)"

text \<open>The body of the loop over \<^verbatim>\<open>issues.slice(0, 3)\<close> in \<^verbatim>\<open>buildDiagnosisOutput\<close>.\<close>

definition pushIssue :: "string list \<Rightarrow> Issue \<Rightarrow> string list" where
  "pushIssue sections issue =
     (let s1 = push sections (''### '' @ title issue @ ''\<newline>'');
          s2 = push s1 ''**Possible Causes:**'';
          s3 = foldl (\<lambda>acc c. push acc (''- '' @ c)) s2 (causes issue);
          s4 = push s3 '''';
          s5 = push s4 ''**Solutions:**'';
          s6 = foldl (\<lambda>acc s. push acc (''- '' @ s)) s5 (solutions issue);
          s7 = push s6 ''''
      in case codeExample issue of
           None \<Rightarrow> s7
         | Some ex \<Rightarrow>
             if ex = [] then s7
             else push (push (push (push (push s7 ''**Example Fix:**'') ''```tsx'') ex) ''```'') '''')"

definition closingNote :: string where
  "closingNote = ''\<newline>If none of these solutions work, please provide more details about your setup (package versions, platform, full error message).''"

definition buildDiagnosisOutput :: "Issue list \<Rightarrow> js_value \<Rightarrow> string" where
  "buildDiagnosisOutput issues platform =
     (let s0 = push [] ''## Diagnosis Results\<newline>'';
          s1 = (if truthy platform
                then push s0 (''Platform: **'' @ js_to_string platform @ ''**\<newline>'')
                else s0);
          s2 = foldl pushIssue s1 (take 3 issues);
          s3 = push s2 ''---'';
          s4 = push s3 closingNote
      in join ''\<newline>'' s4)"

definition buildGenericDiagnosis :: "string \<Rightarrow> js_value \<Rightarrow> js_value \<Rightarrow> js_value \<Rightarrow> string" where
  "buildGenericDiagnosis symptom feature errorMessage platform =
     (let s0 = push [] ''## Diagnosis\<newline>'';
          s1 = push s0 (''**Symptom:** '' @ symptom @ ''\<newline>'');
          s2 = (if truthy feature then push s1 (''**Feature:** '' @ js_to_string feature) else s1);
          s3 = (if truthy errorMessage then push s2 (''**Error:** '' @ js_to_string errorMessage) else s2);
          s4 = (if truthy platform then push s3 (''**Platform:** '' @ js_to_string platform) else s3);
          s5 = push s4 '''';
          s6 = push s5 ''### General Troubleshooting Steps\<newline>'';
          s7 = push s6 ''1. **Check native context:** Verify `appo.isNative` is true'';
          s8 = push s7 ''2. **Check permissions:** Ensure required permissions are granted'';
          s9 = push s8 ''3. **Check installation:** Verify `@appolabs/appo` is properly installed'';
          s10 = push s9 ''4. **Check console:** Look for errors in the console/logs'';
          s11 = push s10 ''5. **Test on device:** Some features only work on physical devices'';
          s12 = push s11 '''';
          s13 = push s12 ''### Debug Code\<newline>'';
          s14 = push s13 ''```tsx'';
          s15 = push s14 ''import { getAppo } from '@appolabs/appo';'';
          s16 = push s15 '''';
          s17 = push s16 ''function debugSdk() {'';
          s18 = push s17 ''  const appo = getAppo();'';
          s19 = push s18 ''  console.log('SDK Version:', appo.version);'';
          s20 = push s19 ''  console.log('Is Native:', appo.isNative);'';
          s21 = push s20 ''  appo.device.getInfo().then(info => {'';
          s22 = push s21 ''    console.log('Device:', info);'';
          s23 = push s22 ''  });'';
          s24 = push s23 ''}'';
          s25 = push s24 ''```'';
          s26 = push s25 '''';
          s27 = push s26 ''Please provide more details (error messages, code snippets) for a more specific diagnosis.''
      in join ''\<newline>'' s27)"

text \<open>
  \<^verbatim>\<open>diagnoseIssue\<close>. A truthy \<open>symptom\<close> that is not a string has no \<^verbatim>\<open>toLowerCase\<close>:
  the call raises.
\<close>

definition diagnoseIssue :: "(string \<Rightarrow> string) \<Rightarrow> js_args \<Rightarrow> js_error + content_item list" where
  "diagnoseIssue toLowerCase args =
     (let symptom = getArg args ''symptom'';
          feature = getArg args ''feature'';
          errorMessage = getArg args ''errorMessage'';
          platform = getArg args ''platform''
      in if \<not> truthy symptom
         then Inr (textContent ''Please describe the issue you're experiencing in the `symptom` parameter.'')
         else case symptom of
                JStr s \<Rightarrow>
                  if length (relevantIssues toLowerCase s feature) = 0
                  then Inr (textContent (buildGenericDiagnosis s feature errorMessage platform))
                  else Inr (textContent (buildDiagnosisOutput (relevantIssues toLowerCase s feature) platform))
              | _ \<Rightarrow> Inl TypeError)"

section \<open>The permission pattern analyzer (check-permissions)\<close>

record PermissionAnalysis =
  hasPermissionRequest :: bool
  hasStatusCheck :: bool
  hasDeniedHandling :: bool
  hasUndeterminedHandling :: bool
  hasErrorHandling :: bool
  hasUserExplanation :: bool
  issues :: "string list"
  suggestions :: "string list"

record FeatureApi =
  api :: string
  protectedMethods :: "string list"

text \<open>The object literal \<^verbatim>\<open>featureApiMap\<close>, its entries in the order \<^verbatim>\<open>Object.keys\<close> lists them.\<close>

definition featureApiMap :: "(string \<times> FeatureApi) list" where
  "featureApiMap =
     [(''push'', \<lparr> api = ''appo.push'', protectedMethods = [''getToken''] \<rparr>),
      (''camera'', \<lparr> api = ''appo.camera'', protectedMethods = [''takePicture''] \<rparr>),
      (''location'', \<lparr> api = ''appo.location'', protectedMethods = [''getCurrentPosition''] \<rparr>)]"

definition protectedMethodIssue :: "string \<Rightarrow> string" where
  "protectedMethodIssue method =
     ''Protected method `'' @ method @ ''` is used without requesting permission first.''"

definition noRequestIssue :: "string \<Rightarrow> string" where
  "noRequestIssue feature = ''No `requestPermission()` call found for '' @ feature @ ''.''"

definition noDeniedIssue :: string where
  "noDeniedIssue = ''No handling for 'denied' permission status. Users who deny permission won't see helpful feedback.''"

text \<open>
  The body of \<^verbatim>\<open>analyzePermissionPatterns\<close> on a string \<open>code\<close>, once \<open>protectedMethods\<close>
  has been read, in the three parts the source marks with its comments: the six pattern
  checks that set the flags, the checks that add issues, and the suggestions. Each step
  is one statement of the source.
\<close>

definition checkPatterns :: "string \<Rightarrow> PermissionAnalysis" where
  "checkPatterns code =
     (let a0 = \<lparr> hasPermissionRequest = False, hasStatusCheck = False,
                 hasDeniedHandling = False, hasUndeterminedHandling = False,
                 hasErrorHandling = False, hasUserExplanation = False,
                 issues = [], suggestions = [] \<rparr>;
          a1 = (if includesStr code ''requestPermission''
                then a0\<lparr> hasPermissionRequest := True \<rparr> else a0);
          a2 = (if includesStr code ''permission'' \<or>
                   includesStr code ''status'' \<or>
                   includesStr code ([CHR 0x27] @ ''granted'' @ [CHR 0x27]) \<or>
                   includesStr code ([CHR 0x22] @ ''granted'' @ [CHR 0x22])
                then a1\<lparr> hasStatusCheck := True \<rparr> else a1);
          a3 = (if includesStr code ([CHR 0x27] @ ''denied'' @ [CHR 0x27]) \<or>
                   includesStr code ([CHR 0x22] @ ''denied'' @ [CHR 0x22]) \<or>
                   includesStr code (''=== '' @ [CHR 0x27] @ ''denied'' @ [CHR 0x27]) \<or>
                   includesStr code (''=== '' @ [CHR 0x22] @ ''denied'' @ [CHR 0x22])
                then a2\<lparr> hasDeniedHandling := True \<rparr> else a2);
          a4 = (if includesStr code ([CHR 0x27] @ ''undetermined'' @ [CHR 0x27]) \<or>
                   includesStr code ([CHR 0x22] @ ''undetermined'' @ [CHR 0x22]) \<or>
                   includesStr code ''null''
                then a3\<lparr> hasUndeterminedHandling := True \<rparr> else a3);
          a5 = (if includesStr code ''try'' \<and> includesStr code ''catch''
                then a4\<lparr> hasErrorHandling := True \<rparr> else a4);
          a6 = (if includesStr code ''modal'' \<or>
                   includesStr code ''Modal'' \<or>
                   includesStr code ''dialog'' \<or>
                   includesStr code ''Dialog'' \<or>
                   includesStr code ''alert'' \<or>
                   includesStr code ''confirm'' \<or>
                   includesStr code ''explanation'' \<or>
                   includesStr code ''why'' \<or>
                   includesStr code ''permission needed''
                then a5\<lparr> hasUserExplanation := True \<rparr> else a5)
      in a6)"

definition checkIssues :: "string \<Rightarrow> string \<Rightarrow> string list \<Rightarrow> PermissionAnalysis \<Rightarrow> PermissionAnalysis" where
  "checkIssues code feature methods a6 =
     (let a7 = foldl
                 (\<lambda>a method.
                    if includesStr code (''.'' @ method @ ''('') \<and>
                       \<not> includesStr code ''requestPermission''
                    then a\<lparr> issues := push (issues a) (protectedMethodIssue method) \<rparr>
                    else a)
                 a6 methods;
          a8 = (if \<not> hasPermissionRequest a7
                then a7\<lparr> issues := push (issues a7) (noRequestIssue feature) \<rparr> else a7);
          a9 = (if \<not> hasDeniedHandling a8
                then a8\<lparr> issues := push (issues a8) noDeniedIssue \<rparr> else a8)
      in a9)"

definition addSuggestions :: "PermissionAnalysis \<Rightarrow> PermissionAnalysis" where
  "addSuggestions a9 =
     (let a10 = (if \<not> hasUserExplanation a9
                 then a9\<lparr> suggestions := push (suggestions a9)
                   ''Consider explaining to users WHY you need this permission before requesting it. This improves acceptance rates.'' \<rparr>
                 else a9);
          a11 = (if \<not> hasErrorHandling a10
                 then a10\<lparr> suggestions := push (suggestions a10)
                   ''Add try/catch blocks to handle potential errors during permission requests.'' \<rparr>
                 else a10);
          a12 = (if \<not> hasUndeterminedHandling a11
                 then a11\<lparr> suggestions := push (suggestions a11)
                   ''Handle the 'undetermined' state - this is the initial state before the user makes a choice.'' \<rparr>
                 else a11)
      in a12)"

definition analyzeCode :: "string \<Rightarrow> string \<Rightarrow> string list \<Rightarrow> PermissionAnalysis" where
  "analyzeCode code feature methods =
     addSuggestions (checkIssues code feature methods (checkPatterns code))"

text \<open>
  \<^verbatim>\<open>analyzePermissionPatterns\<close>. It reads \<^verbatim>\<open>featureApiMap[feature]\<close> and destructures
  \<open>protectedMethods\<close> from it: with no such property the destructuring of
  \<^verbatim>\<open>undefined\<close> raises; with a property inherited from \<^verbatim>\<open>Object.prototype\<close>
  \<open>protectedMethods\<close> is \<^verbatim>\<open>undefined\<close> and the \<^verbatim>\<open>for ... of\<close> over it raises (or, before that,
  \<^verbatim>\<open>code.includes\<close> does when \<open>code\<close> is no string).
\<close>

definition analyzePermissionPatterns :: "js_value \<Rightarrow> js_value \<Rightarrow> js_error + PermissionAnalysis" where
  "analyzePermissionPatterns code feature =
     (case getProp featureApiMap (js_to_string feature) of
        NoProp \<Rightarrow> Inl TypeError
      | InheritedProp \<Rightarrow> Inl TypeError
      | OwnProp spec \<Rightarrow>
          (case code of
             JStr c \<Rightarrow> Inr (analyzeCode c (js_to_string feature) (protectedMethods spec))
           | _ \<Rightarrow> Inl TypeError))"

definition patterns_push :: string where
  "patterns_push =
     ''import { useState } from 'react';\<newline>import { getAppo, type PermissionStatus } from '@appolabs/appo';\<newline>\<newline>function PushNotificationSetup() {\<newline>  const [status, setStatus] = useState<PermissionStatus | null>(null);\<newline>  const [showExplanation, setShowExplanation] = useState(true);\<newline>  const appo = getAppo();\<newline>\<newline>  const handleEnable = async () => {\<newline>    try {\<newline>      const result = await appo.push.requestPermission();\<newline>      setStatus(result);\<newline>\<newline>      if (result === 'granted') {\<newline>        const token = await appo.push.getToken();\<newline>        // Send token to your backend\<newline>      }\<newline>    } catch (error) {\<newline>      console.error('Push permission error:', error);\<newline>    }\<newline>  };\<newline>\<newline>  if (status === 'denied') {\<newline>    return <p>Push notifications are disabled. Enable them in Settings.</p>;\<newline>  }\<newline>\<newline>  if (showExplanation) {\<newline>    return (\<newline>      <div>\<newline>        <p>We'll send you updates about your orders and exclusive offers.</p>\<newline>        <button onClick={() => { setShowExplanation(false); handleEnable(); }}>\<newline>          Enable Notifications\<newline>        </button>\<newline>      </div>\<newline>    );\<newline>  }\<newline>\<newline>  return null;\<newline>}''"

definition patterns_camera :: string where
  "patterns_camera =
     ''import { useState } from 'react';\<newline>import { getAppo, type PermissionStatus } from '@appolabs/appo';\<newline>\<newline>function CameraCapture() {\<newline>  const [status, setStatus] = useState<PermissionStatus | null>(null);\<newline>  const appo = getAppo();\<newline>\<newline>  const handleCapture = async () => {\<newline>    try {\<newline>      // Request permission first\<newline>      if (status !== 'granted') {\<newline>        const result = await appo.camera.requestPermission();\<newline>        setStatus(result);\<newline>        if (result !== 'granted') return;\<newline>      }\<newline>\<newline>      // Now safe to capture\<newline>      const photo = await appo.camera.takePicture();\<newline>      if (photo) {\<newline>        // Handle photo\<newline>      }\<newline>    } catch (error) {\<newline>      console.error('Camera error:', error);\<newline>    }\<newline>  };\<newline>\<newline>  if (status === 'denied') {\<newline>    return <p>Camera access denied. Please enable in Settings.</p>;\<newline>  }\<newline>\<newline>  return <button onClick={handleCapture}>Take Photo</button>;\<newline>}''"

definition patterns_location :: string where
  "patterns_location =
     ''import { useState } from 'react';\<newline>import { getAppo, type PermissionStatus } from '@appolabs/appo';\<newline>\<newline>function LocationAccess() {\<newline>  const [status, setStatus] = useState<PermissionStatus | null>(null);\<newline>  const [showRationale, setShowRationale] = useState(true);\<newline>  const appo = getAppo();\<newline>\<newline>  const handleGetLocation = async () => {\<newline>    try {\<newline>      if (status !== 'granted') {\<newline>        const result = await appo.location.requestPermission();\<newline>        setStatus(result);\<newline>        if (result !== 'granted') return;\<newline>      }\<newline>\<newline>      const position = await appo.location.getCurrentPosition();\<newline>      if (position) {\<newline>        // Use location\<newline>      }\<newline>    } catch (error) {\<newline>      console.error('Location error:', error);\<newline>    }\<newline>  };\<newline>\<newline>  if (status === 'denied') {\<newline>    return <p>Location access denied. Enable in Settings to use this feature.</p>;\<newline>  }\<newline>\<newline>  if (showRationale) {\<newline>    return (\<newline>      <div>\<newline>        <p>We need your location to find nearby stores.</p>\<newline>        <button onClick={() => { setShowRationale(false); handleGetLocation(); }}>\<newline>          Share Location\<newline>        </button>\<newline>      </div>\<newline>    );\<newline>  }\<newline>\<newline>  return null;\<newline>}''"
text \<open>
  \<^verbatim>\<open>getRecommendedPattern\<close>: the table \<open>patterns\<close> at \<open>feature\<close>. It is reached only
  after \<^verbatim>\<open>analyzePermissionPatterns\<close> has returned, that is with one of the three keys;
  a key without entry gives \<^verbatim>\<open>undefined\<close>, which \<^verbatim>\<open>join\<close> renders as the empty string.
\<close>

definition patterns :: "(string \<times> string) list" where
  "patterns = [(''push'', patterns_push), (''camera'', patterns_camera), (''location'', patterns_location)]"

definition getRecommendedPattern :: "string \<Rightarrow> string" where
  "getRecommendedPattern feature = (case map_of patterns feature of Some p \<Rightarrow> p | None \<Rightarrow> [])"

definition checkbox :: "bool \<Rightarrow> string" where
  "checkbox b = (if b then ''x'' else '' '')"

text \<open>The two list markers of \<^verbatim>\<open>buildAnalysisOutput\<close>, as the bytes of the source file.\<close>

definition issueMarker :: string where
  "issueMarker = [CHR 0xC3, CHR 0xA2, CHR 0xC5, CHR 0x92]"

definition suggestionMarker :: string where
  "suggestionMarker = [CHR 0xC3, CHR 0xB0, CHR 0xC5, CHR 0xB8, CHR 0xE2, CHR 0x80, CHR 0x99, CHR 0xC2, CHR 0xA1]"

definition buildAnalysisOutput :: "string \<Rightarrow> PermissionAnalysis \<Rightarrow> string" where
  "buildAnalysisOutput feature analysis =
     (let s0 = push [] (''## '' @ toUpperCaseASCII (take 1 feature) @ drop 1 feature @ '' Permission Analysis\<newline>'');
          s1 = push s0 ''### Permission Flow Checklist\<newline>'';
          s2 = push s1 (''- ['' @ checkbox (hasPermissionRequest analysis) @ ''] Calls `requestPermission()`'');
          s3 = push s2 (''- ['' @ checkbox (hasStatusCheck analysis) @ ''] Checks permission status'');
          s4 = push s3 (''- ['' @ checkbox (hasDeniedHandling analysis) @ ''] Handles 'denied' status'');
          s5 = push s4 (''- ['' @ checkbox (hasUndeterminedHandling analysis) @ ''] Handles initial/undetermined state'');
          s6 = push s5 (''- ['' @ checkbox (hasErrorHandling analysis) @ ''] Has error handling'');
          s7 = push s6 (''- ['' @ checkbox (hasUserExplanation analysis) @ ''] Explains why permission is needed'');
          s8 = push s7 '''';
          s9 = (if length (issues analysis) > 0
                then push (foldl (\<lambda>acc issue. push acc (''- '' @ issueMarker @ '' '' @ issue))
                             (push s8 ''### Issues Found\<newline>'') (issues analysis)) ''''
                else s8);
          s10 = (if length (suggestions analysis) > 0
                 then push (foldl (\<lambda>acc s. push acc (''- '' @ suggestionMarker @ '' '' @ s))
                              (push s9 ''### Suggestions\<newline>'') (suggestions analysis)) ''''
                 else s9);
          s11 = push s10 ''### Recommended Pattern\<newline>'';
          s12 = push s11 ''```tsx'';
          s13 = push s12 (getRecommendedPattern feature);
          s14 = push s13 ''```''
      in join ''\<newline>'' s14)"

text \<open>
  \<^verbatim>\<open>checkPermissions\<close>. The guard \<^verbatim>\<open>!featureApiMap[feature]\<close> lets every truthy property
  through, inherited ones too. \<^verbatim>\<open>buildAnalysisOutput\<close> calls \<^verbatim>\<open>feature.charAt\<close>, which
  only a string has.
\<close>

definition checkPermissions :: "js_args \<Rightarrow> js_error + content_item list" where
  "checkPermissions args =
     (let code = getArg args ''code'';
          feature = getArg args ''feature''
      in if \<not> truthy code \<or> \<not> truthy feature
         then Inr (textContent ''Please provide both `code` and `feature` (push, camera, or location) parameters.'')
         else if getProp featureApiMap (js_to_string feature) = NoProp
         then Inr (textContent (''Invalid feature. Permission-required features are: '' @
                                join '', '' (map fst featureApiMap)))
         else case analyzePermissionPatterns code feature of
                Inl e \<Rightarrow> Inl e
              | Inr analysis \<Rightarrow>
                  (case feature of
                     JStr f \<Rightarrow> Inr (textContent (buildAnalysisOutput f analysis))
                   | _ \<Rightarrow> Inl TypeError))"

section \<open>The reports as the specification words them\<close>

text \<open>
  The specification's wording of the diagnosis report: per candidate the title heading,
  the causes as a bullet list, the solutions as a bullet list, and the code example fenced
  when present; these for the first three candidates, after the heading and the optional
  platform line, and before the closing note.
\<close>

definition renderIssue :: "Issue \<Rightarrow> string list" where
  "renderIssue issue =
     [''### '' @ title issue @ ''\<newline>''] @
     [''**Possible Causes:**''] @ map (\<lambda>c. ''- '' @ c) (causes issue) @ [''''] @
     [''**Solutions:**''] @ map (\<lambda>s. ''- '' @ s) (solutions issue) @ [''''] @
     (case codeExample issue of
        None \<Rightarrow> []
      | Some ex \<Rightarrow> if ex = [] then [] else [''**Example Fix:**'', ''```tsx'', ex, ''```'', ''''])"

definition diagnosisReport :: "Issue list \<Rightarrow> js_value \<Rightarrow> string" where
  "diagnosisReport candidates platform =
     join ''\<newline>''
       ([''## Diagnosis Results\<newline>''] @
        (if truthy platform then [''Platform: **'' @ js_to_string platform @ ''**\<newline>''] else []) @
        concat (map renderIssue (take 3 candidates)) @
        [''---'', closingNote])"

text \<open>
  The specification's wording of the generic report: the echoed fields, then the fixed
  five-step checklist and the fixed debug-code snippet.
\<close>

definition echoField :: "string \<Rightarrow> js_value \<Rightarrow> string list" where
  "echoField label v = (if truthy v then [label @ js_to_string v] else [])"

definition troubleshootingChecklist :: "string list" where
  "troubleshootingChecklist =
     [''1. **Check native context:** Verify `appo.isNative` is true'',
      ''2. **Check permissions:** Ensure required permissions are granted'',
      ''3. **Check installation:** Verify `@appolabs/appo` is properly installed'',
      ''4. **Check console:** Look for errors in the console/logs'',
      ''5. **Test on device:** Some features only work on physical devices'']"

definition debugCodeSnippet :: "string list" where
  "debugCodeSnippet =
     [''```tsx'',
      ''import { getAppo } from '@appolabs/appo';'',
      '''',
      ''function debugSdk() {'',
      ''  const appo = getAppo();'',
      ''  console.log('SDK Version:', appo.version);'',
      ''  console.log('Is Native:', appo.isNative);'',
      ''  appo.device.getInfo().then(info => {'',
      ''    console.log('Device:', info);'',
      ''  });'',
      ''}'',
      ''```'']"

definition genericReport :: "string \<Rightarrow> js_value \<Rightarrow> js_value \<Rightarrow> js_value \<Rightarrow> string" where
  "genericReport symptom feature errorMessage platform =
     join ''\<newline>''
       ([''## Diagnosis\<newline>'', ''**Symptom:** '' @ symptom @ ''\<newline>''] @
        echoField ''**Feature:** '' feature @
        echoField ''**Error:** '' errorMessage @
        echoField ''**Platform:** '' platform @
        ['''', ''### General Troubleshooting Steps\<newline>''] @
        troubleshootingChecklist @
        ['''', ''### Debug Code\<newline>''] @
        debugCodeSnippet @
        ['''', ''Please provide more details (error messages, code snippets) for a more specific diagnosis.''])"

text \<open>The two fixed messages of the tools' guards.\<close>

definition symptomPrompt :: string where
  "symptomPrompt = ''Please describe the issue you're experiencing in the `symptom` parameter.''"

definition missingParameters :: string where
  "missingParameters = ''Please provide both `code` and `feature` (push, camera, or location) parameters.''"

definition invalidFeature :: string where
  "invalidFeature = ''Invalid feature. Permission-required features are: push, camera, location''"

section \<open>Facts about the string and array operations\<close>

lemma includesStr_sublist: "includesStr s t = sublist t s"
  by (induction s) (auto simp: sublist_Cons_right)

lemma foldl_snoc: "foldl (\<lambda>acc c. acc @ [f c]) acc xs = acc @ map f xs"
  by (induction xs arbitrary: acc) simp_all

lemma join_Cons: "ys \<noteq> [] \<Longrightarrow> join sep (x # ys) = x @ sep @ join sep ys"
  by (cases ys) simp_all

lemma join_append2:
  "xs \<noteq> [] \<Longrightarrow> ys \<noteq> [] \<Longrightarrow> join sep (xs @ ys) = join sep xs @ sep @ join sep ys"
proof (induction xs)
  case Nil
  then show ?case by simp
next
  case (Cons x xs)
  show ?case
  proof (cases "xs = []")
    case True
    with Cons.prems show ?thesis by (simp add: join_Cons)
  next
    case False
    with Cons show ?thesis by (simp add: join_Cons)
  qed
qed

lemma join_eq_Nil: "join sep xs = [] \<Longrightarrow> x \<in> set xs \<Longrightarrow> x = []"
  by (induction sep xs rule: join.induct) auto

lemma join_push_nonempty: "x \<noteq> [] \<Longrightarrow> join sep (push xs x) \<noteq> []"
  using join_eq_Nil [of sep "push xs x" x] by (auto simp: push_def)

lemma sublist_join: "x \<in> set xs \<Longrightarrow> sublist x (join sep xs)"
proof (induction sep xs rule: join.induct)
  case (1 sep)
  then show ?case by simp
next
  case (2 sep y)
  then show ?case by simp
next
  case (3 sep y z zs)
  show ?case
  proof (cases "x = y")
    case True
    then show ?thesis by simp
  next
    case False
    with 3 have "sublist x (join sep (z # zs))" by simp
    then obtain ps ss where "join sep (z # zs) = ps @ x @ ss" by (auto simp: sublist_def)
    then have "join sep (y # z # zs) = (y @ sep @ ps) @ x @ ss" by simp
    then show ?thesis unfolding sublist_def by blast
  qed
qed

section \<open>The builders produce the reports of the specification\<close>

lemma pushIssue_render: "pushIssue sections issue = sections @ renderIssue issue"
  by (simp add: pushIssue_def renderIssue_def Let_def push_def foldl_snoc split: option.split)

lemma foldl_pushIssue: "foldl pushIssue acc xs = acc @ concat (map renderIssue xs)"
  by (induction xs arbitrary: acc) (simp_all add: pushIssue_render)

lemma buildDiagnosisOutput_report: "buildDiagnosisOutput cs platform = diagnosisReport cs platform"
  by (simp add: buildDiagnosisOutput_def diagnosisReport_def Let_def foldl_pushIssue push_def)

lemma buildGenericDiagnosis_report: "buildGenericDiagnosis s f e p = genericReport s f e p"
  by (simp add: buildGenericDiagnosis_def genericReport_def Let_def push_def echoField_def
      troubleshootingChecklist_def debugCodeSnippet_def)

section \<open>Facts about the issue matcher\<close>

lemmas case_defs = toLowerCaseASCII_def toLowerCaseChar_def upperLetters_def lowerLetters_def

lemma matchedIssues_filter:
  "matchedIssues toLowerCase s =
     filter (\<lambda>i. \<exists>k \<in> set (symptoms i). sublist (toLowerCase k) (toLowerCase s)) knownIssues"
  by (simp add: matchedIssues_def Let_def includesStr_sublist list_ex_iff)

lemma featureIssues_filter:
  "truthy f \<Longrightarrow>
   featureIssues toLowerCase s f =
     filter (\<lambda>i. sublist (js_to_string f) (toLowerCase (title i)) \<or>
                 (\<exists>k \<in> set (symptoms i). sublist (js_to_string f) k)) (matchedIssues toLowerCase s)"
  by (simp add: featureIssues_def includesStr_sublist list_ex_iff)

lemma relevantIssues_Nil: "relevantIssues toLowerCase s f = [] \<longleftrightarrow> matchedIssues toLowerCase s = []"
  by (auto simp: relevantIssues_def featureIssues_def)

lemma diagnoseIssue_string:
  "getArg args ''symptom'' = JStr s \<Longrightarrow> s \<noteq> [] \<Longrightarrow>
   diagnoseIssue toLowerCase args =
     Inr (textContent
       (if relevantIssues toLowerCase s (getArg args ''feature'') = []
        then buildGenericDiagnosis s (getArg args ''feature'') (getArg args ''errorMessage'')
               (getArg args ''platform'')
        else buildDiagnosisOutput (relevantIssues toLowerCase s (getArg args ''feature''))
               (getArg args ''platform'')))"
  by (simp add: diagnoseIssue_def Let_def)

lemma matchedIssues_token_is_null: "matchedIssues toLowerCaseASCII ''token is null'' = [knownIssues_2]"
  by code_simp

lemma suffix_join_last: "suffix x (join sep (xs @ [x]))"
proof (cases "xs = []")
  case True
  then show ?thesis by simp
next
  case False
  then have "join sep (xs @ [x]) = join sep xs @ sep @ x" by (simp add: join_append2)
  then show ?thesis by (simp add: suffix_def)
qed

lemma suffix_closingNote: "suffix closingNote (diagnosisReport cs p)"
proof -
  have "diagnosisReport cs p =
      join ''\<newline>'' (([''## Diagnosis Results\<newline>''] @
        (if truthy p then [''Platform: **'' @ js_to_string p @ ''**\<newline>''] else []) @
        concat (map renderIssue (take 3 cs)) @ [''---'']) @ [closingNote])"
    by (simp add: diagnosisReport_def)
  then show ?thesis by (simp only: suffix_join_last)
qed

lemma title_in_report:
  assumes "i \<in> set (take 3 cs)"
  shows "sublist (''### '' @ title i @ ''\<newline>'') (diagnosisReport cs p)"
proof -
  have "(''### '' @ title i @ ''\<newline>'') \<in> set (renderIssue i)"
    by (simp add: renderIssue_def)
  with assms have "(''### '' @ title i @ ''\<newline>'') \<in> set (concat (map renderIssue (take 3 cs)))"
    by auto
  then have "(''### '' @ title i @ ''\<newline>'') \<in>
      set ([''## Diagnosis Results\<newline>''] @
        (if truthy p then [''Platform: **'' @ js_to_string p @ ''**\<newline>''] else []) @
        concat (map renderIssue (take 3 cs)) @ [''---'', closingNote])"
    by simp
  then show ?thesis unfolding diagnosisReport_def by (rule sublist_join)
qed

lemma matchedIssues_camera_not_working:
  "matchedIssues toLowerCaseASCII ''Camera not working in my browser'' = [knownIssues_0, knownIssues_4]"
  by code_simp

lemma matchedIssues_xyzzy: "matchedIssues toLowerCaseASCII ''xyzzy quux'' = []"
  by code_simp

lemma genericReport_tail:
  "genericReport s f e p =
     join ''\<newline>'' ([''## Diagnosis\<newline>'', ''**Symptom:** '' @ s @ ''\<newline>''] @
        echoField ''**Feature:** '' f @ echoField ''**Error:** '' e @ echoField ''**Platform:** '' p) @
     ''\<newline>'' @
     join ''\<newline>'' (['''', ''### General Troubleshooting Steps\<newline>''] @
        troubleshootingChecklist @ ['''', ''### Debug Code\<newline>''] @ debugCodeSnippet @
        ['''', ''Please provide more details (error messages, code snippets) for a more specific diagnosis.''])"
proof -
  let ?A = "[''## Diagnosis\<newline>'', ''**Symptom:** '' @ s @ ''\<newline>''] @
        echoField ''**Feature:** '' f @ echoField ''**Error:** '' e @ echoField ''**Platform:** '' p"
  let ?B = "['''', ''### General Troubleshooting Steps\<newline>''] @
        troubleshootingChecklist @ ['''', ''### Debug Code\<newline>''] @ debugCodeSnippet @
        ['''', ''Please provide more details (error messages, code snippets) for a more specific diagnosis.'']"
  have a: "?A \<noteq> []" by (simp only: append_is_Nil_conv list.distinct) simp
  have b: "?B \<noteq> []" by (simp only: append_is_Nil_conv list.distinct) simp
  have "genericReport s f e p = join ''\<newline>'' (?A @ ?B)"
    by (simp only: genericReport_def append_assoc)
  then show ?thesis by (simp only: join_append2 [OF a b])
qed

lemma genericReport_nonempty: "genericReport s f e p \<noteq> []"
  by (simp only: genericReport_tail append_is_Nil_conv list.distinct simp_thms)

lemma echo_in_genericReport:
  assumes "x \<in> set (echoField ''**Feature:** '' f @ echoField ''**Error:** '' e @
                      echoField ''**Platform:** '' p)"
  shows "sublist x (genericReport s f e p)"
  unfolding genericReport_def
  using assms by (intro sublist_join) (simp only: set_append Un_iff, blast)

lemma symptom_in_genericReport:
  "sublist (''**Symptom:** '' @ s @ ''\<newline>'') (genericReport s f e p)"
  unfolding genericReport_def
  by (intro sublist_join) (simp only: set_append Un_iff list.set insert_iff simp_thms)

lemma genericReport_suffix:
  "suffix (join ''\<newline>'' (['''', ''### General Troubleshooting Steps\<newline>''] @
             troubleshootingChecklist @ ['''', ''### Debug Code\<newline>''] @ debugCodeSnippet @
             ['''', ''Please provide more details (error messages, code snippets) for a more specific diagnosis.'']))
          (genericReport s f e p)"
  by (subst genericReport_tail) (simp only: suffix_def append_assoc [symmetric], blast)

lemma mixed_case_keyword:
  "toLowerCaseASCII ''requestPermission returns denied'' = ''requestpermission returns denied''"
  by (simp add: case_defs)

section \<open>Facts about the permission analyzer\<close>

lemma getProp_featureApiMap:
  "getProp featureApiMap ''push'' =
     OwnProp \<lparr> api = ''appo.push'', protectedMethods = [''getToken''] \<rparr>"
  "getProp featureApiMap ''camera'' =
     OwnProp \<lparr> api = ''appo.camera'', protectedMethods = [''takePicture''] \<rparr>"
  "getProp featureApiMap ''location'' =
     OwnProp \<lparr> api = ''appo.location'', protectedMethods = [''getCurrentPosition''] \<rparr>"
  by (simp_all add: getProp_def featureApiMap_def)

lemma checkPatterns_request:
  "hasPermissionRequest (checkPatterns code) = includesStr code ''requestPermission''"
  by (simp add: checkPatterns_def Let_def)

lemma checkPatterns_denied:
  "hasDeniedHandling (checkPatterns code) =
     (includesStr code ([CHR 0x27] @ ''denied'' @ [CHR 0x27]) \<or>
      includesStr code ([CHR 0x22] @ ''denied'' @ [CHR 0x22]) \<or>
      includesStr code (''=== '' @ [CHR 0x27] @ ''denied'' @ [CHR 0x27]) \<or>
      includesStr code (''=== '' @ [CHR 0x22] @ ''denied'' @ [CHR 0x22]))"
  by (simp add: checkPatterns_def Let_def)

lemma checkPatterns_issues: "issues (checkPatterns code) = []"
  by (simp add: checkPatterns_def Let_def)

lemma foldl_protected:
  "foldl (\<lambda>a method. if P method then a\<lparr> issues := push (issues a) (g method) \<rparr> else a) a ms =
     a\<lparr> issues := issues a @ map g (filter P ms) \<rparr>"
  by (induction ms arbitrary: a) (simp_all add: push_def)

lemma checkIssues_issues:
  "issues (checkIssues code f ms a) =
     issues a @
     map protectedMethodIssue
       (filter (\<lambda>m. includesStr code (''.'' @ m @ ''('') \<and> \<not> includesStr code ''requestPermission'') ms) @
     (if hasPermissionRequest a then [] else [noRequestIssue f]) @
     (if hasDeniedHandling a then [] else [noDeniedIssue])"
  by (simp add: checkIssues_def Let_def foldl_protected push_def)

lemma checkIssues_flags:
  "hasPermissionRequest (checkIssues code f ms a) = hasPermissionRequest a"
  "hasDeniedHandling (checkIssues code f ms a) = hasDeniedHandling a"
  by (simp_all add: checkIssues_def Let_def foldl_protected)

lemma addSuggestions_keeps:
  "hasPermissionRequest (addSuggestions a) = hasPermissionRequest a"
  "hasDeniedHandling (addSuggestions a) = hasDeniedHandling a"
  "issues (addSuggestions a) = issues a"
  by (simp_all add: addSuggestions_def Let_def)

lemma analyzeCode_request:
  "hasPermissionRequest (analyzeCode code f ms) = includesStr code ''requestPermission''"
  by (simp only: analyzeCode_def addSuggestions_keeps checkIssues_flags checkPatterns_request)

lemma analyzeCode_denied:
  "hasDeniedHandling (analyzeCode code f ms) =
     (includesStr code ([CHR 0x27] @ ''denied'' @ [CHR 0x27]) \<or>
      includesStr code ([CHR 0x22] @ ''denied'' @ [CHR 0x22]) \<or>
      includesStr code (''=== '' @ [CHR 0x27] @ ''denied'' @ [CHR 0x27]) \<or>
      includesStr code (''=== '' @ [CHR 0x22] @ ''denied'' @ [CHR 0x22]))"
  by (simp only: analyzeCode_def addSuggestions_keeps checkIssues_flags checkPatterns_denied)

lemma analyzeCode_issues:
  "issues (analyzeCode code f ms) =
     map protectedMethodIssue
       (filter (\<lambda>m. includesStr code (''.'' @ m @ ''('') \<and> \<not> includesStr code ''requestPermission'') ms) @
     (if hasPermissionRequest (analyzeCode code f ms) then [] else [noRequestIssue f]) @
     (if hasDeniedHandling (analyzeCode code f ms) then [] else [noDeniedIssue])"
  by (simp only: analyzeCode_def addSuggestions_keeps checkIssues_flags checkIssues_issues
      checkPatterns_issues append_Nil)

lemma analyzePermissionPatterns_camera:
  "analyzePermissionPatterns (JStr code) (JStr ''camera'') =
     Inr (analyzeCode code ''camera'' [''takePicture''])"
  by (simp add: analyzePermissionPatterns_def getProp_featureApiMap)

lemma issue_texts:
  "\<not> includesStr (noRequestIssue ''camera'') ''takePicture''"
  "\<not> includesStr noDeniedIssue ''takePicture''"
  "includesStr (protectedMethodIssue ''takePicture'') ''takePicture''"
  by (simp_all add: noRequestIssue_def noDeniedIssue_def protectedMethodIssue_def)

lemma analyzePermissionPatterns_valid:
  assumes "feature \<in> {''push'', ''camera'', ''location''}"
  shows "\<exists>ms. analyzePermissionPatterns (JStr code) (JStr feature) =
              Inr (analyzeCode code feature ms)"
  using assms by (auto simp: analyzePermissionPatterns_def getProp_featureApiMap)

lemma join_keys: "join '', '' (map fst featureApiMap) = ''push, camera, location''"
  by (simp add: featureApiMap_def)

lemma getProp_NoProp:
  "k \<notin> {''push'', ''camera'', ''location''} \<Longrightarrow> k \<notin> set objectPrototypeKeys \<Longrightarrow>
   getProp featureApiMap k = NoProp"
  by (simp add: getProp_def featureApiMap_def)

section \<open>Both tools return a text\<close>

lemma buildDiagnosisOutput_nonempty: "buildDiagnosisOutput cs p \<noteq> []"
proof -
  have "closingNote \<noteq> []" by (simp add: closingNote_def)
  then show ?thesis
    by (simp only: buildDiagnosisOutput_def Let_def join_push_nonempty not_False_eq_True)
qed

lemma buildAnalysisOutput_nonempty: "buildAnalysisOutput f a \<noteq> []"
proof -
  have "''```'' \<noteq> []" by simp
  then show ?thesis
    by (simp only: buildAnalysisOutput_def Let_def join_push_nonempty not_False_eq_True)
qed

lemma getProp_cases:
  "getProp featureApiMap k = NoProp \<or>
   (k \<in> set objectPrototypeKeys \<and> getProp featureApiMap k = InheritedProp) \<or>
   (\<exists>spec. getProp featureApiMap k = OwnProp spec)"
  by (simp add: getProp_def split: option.split)

lemma diagnoseIssue_returns:
  assumes "getArg args ''symptom'' = JUndefined \<or> (\<exists>s. getArg args ''symptom'' = JStr s)"
  shows "\<exists>t. t \<noteq> [] \<and> diagnoseIssue toLowerCase args = Inr (textContent t)"
proof (cases "truthy (getArg args ''symptom'')")
  case False
  then have "diagnoseIssue toLowerCase args = Inr (textContent symptomPrompt)"
    by (simp add: diagnoseIssue_def symptomPrompt_def)
  moreover have "symptomPrompt \<noteq> []" by (simp add: symptomPrompt_def)
  ultimately show ?thesis by blast
next
  case True
  with assms obtain s where s: "getArg args ''symptom'' = JStr s" "s \<noteq> []" by auto
  let ?t = "if relevantIssues toLowerCase s (getArg args ''feature'') = []
        then buildGenericDiagnosis s (getArg args ''feature'') (getArg args ''errorMessage'')
               (getArg args ''platform'')
        else buildDiagnosisOutput (relevantIssues toLowerCase s (getArg args ''feature''))
               (getArg args ''platform'')"
  have "?t \<noteq> []"
    using buildDiagnosisOutput_nonempty genericReport_nonempty
    by (simp add: buildGenericDiagnosis_report)
  moreover have "diagnoseIssue toLowerCase args = Inr (textContent ?t)" by (rule diagnoseIssue_string [OF s])
  ultimately show ?thesis by blast
qed

lemma checkPermissions_returns:
  assumes "getArg args ''code'' = JUndefined \<or> (\<exists>s. getArg args ''code'' = JStr s)"
    and "getArg args ''feature'' = JUndefined \<or> (\<exists>s. getArg args ''feature'' = JStr s)"
    and "js_to_string (getArg args ''feature'') \<notin> set objectPrototypeKeys"
  shows "\<exists>t. t \<noteq> [] \<and> checkPermissions args = Inr (textContent t)"
proof (cases "truthy (getArg args ''code'') \<and> truthy (getArg args ''feature'')")
  case False
  then have "checkPermissions args = Inr (textContent missingParameters)"
    by (auto simp: checkPermissions_def missingParameters_def)
  moreover have "missingParameters \<noteq> []" by (simp add: missingParameters_def)
  ultimately show ?thesis by blast
next
  case True
  with assms(1,2) obtain c f where c: "getArg args ''code'' = JStr c"
    and f: "getArg args ''feature'' = JStr f" by auto
  from assms(3) f have ni: "f \<notin> set objectPrototypeKeys" by simp
  from getProp_cases [of f] ni
  consider "getProp featureApiMap f = NoProp" | spec where "getProp featureApiMap f = OwnProp spec"
    by blast
  then show ?thesis
  proof cases
    case 1
    with True have "checkPermissions args =
        Inr (textContent (''Invalid feature. Permission-required features are: '' @
          join '', '' (map fst featureApiMap)))"
      by (simp add: checkPermissions_def Let_def f)
    then show ?thesis by blast
  next
    case (2 spec)
    with True have "checkPermissions args =
        Inr (textContent (buildAnalysisOutput f (analyzeCode c f (protectedMethods spec))))"
      by (simp add: checkPermissions_def Let_def f c analyzePermissionPatterns_def)
    with buildAnalysisOutput_nonempty show ?thesis by blast
  qed
qed

text \<open>The analysis returns only for the three features of the table.\<close>

lemma analyzePermissionPatterns_feature:
  "analyzePermissionPatterns code feature = Inr a \<Longrightarrow>
   js_to_string feature \<in> {''push'', ''camera'', ''location''}"
  by (simp add: analyzePermissionPatterns_def getProp_def featureApiMap_def
      split: option.splits js_prop.splits if_splits)

section \<open>Evaluation on ASCII inputs\<close>

text \<open>
  The titles and keywords of the catalogue are ASCII, so that \<open>toLowerCaseASCII\<close> is the
  runtime's \<^verbatim>\<open>toLowerCase\<close> on them.
\<close>

lemma catalogue_ascii:
  "\<forall>i \<in> set knownIssues. isASCII (title i) \<and> (\<forall>k \<in> set (symptoms i). isASCII k)"
  by code_simp

lemma camera_hint_narrowed:
  "featureIssues toLowerCaseASCII ''Camera not working in my browser'' (JStr ''camera'') =
     [knownIssues_4]"
  by (simp add: featureIssues_def matchedIssues_camera_not_working)
    (simp add: knownIssues_0_def knownIssues_4_def case_defs)

lemma camera_hint_report:
  "diagnoseIssue toLowerCaseASCII
     [''symptom'' \<mapsto> JStr ''Camera not working in my browser'', ''feature'' \<mapsto> JStr ''camera''] =
   Inr (textContent (diagnosisReport [knownIssues_4] JUndefined))"
proof -
  let ?args = "[''symptom'' \<mapsto> JStr ''Camera not working in my browser'',
                ''feature'' \<mapsto> JStr ''camera'']"
  have s: "getArg ?args ''symptom'' = JStr ''Camera not working in my browser''"
    by (simp add: getArg_def)
  have f: "getArg ?args ''feature'' = JStr ''camera''" by (simp add: getArg_def)
  have p: "getArg ?args ''platform'' = JUndefined" by (simp add: getArg_def)
  have r: "relevantIssues toLowerCaseASCII ''Camera not working in my browser'' (JStr ''camera'') =
      [knownIssues_4]"
    by (simp add: relevantIssues_def camera_hint_narrowed)
  have "''Camera not working in my browser'' \<noteq> []" by simp
  from diagnoseIssue_string [OF s this] show ?thesis
    by (simp add: f p r buildDiagnosisOutput_report)
qed

lemma camera_hint_omits_first:
  "\<not> sublist (title knownIssues_0) (diagnosisReport [knownIssues_4] JUndefined)"
  by code_simp

text \<open>The message for a feature outside the table, when the first guard lets the call through.\<close>

lemma invalid_feature_message:
  assumes "truthy (getArg args ''code'')" and "truthy (getArg args ''feature'')"
    and "js_to_string (getArg args ''feature'') \<notin> {''push'', ''camera'', ''location''}"
    and "js_to_string (getArg args ''feature'') \<notin> set objectPrototypeKeys"
  shows "checkPermissions args = Inr (textContent invalidFeature)"
  using assms(1,2) getProp_NoProp [OF assms(3,4)]
  by (simp add: checkPermissions_def Let_def join_keys invalidFeature_def)

text \<open>A feature named like a property that every object inherits passes both guards.\<close>

lemma getProp_inherited:
  "k \<in> set objectPrototypeKeys \<Longrightarrow> getProp featureApiMap k = InheritedProp"
  by (auto simp: getProp_def featureApiMap_def objectPrototypeKeys_def)

lemma inherited_truthy: "js_to_string v \<in> set objectPrototypeKeys \<Longrightarrow> truthy v"
  by (cases v) (auto simp: objectPrototypeKeys_def split: if_splits)

section \<open>The claims\<close>

text \<open>
  C1. For a non-empty symptom string \<open>s\<close> and a supplied feature hint \<open>f\<close>: when no
  keyword-matched entry has \<open>f\<close> in its lowercased title or in one of its keywords, the
  narrowing is dropped and \<^verbatim>\<open>diagnoseIssue\<close> reports from all the keyword-matched entries
  (the generic report when there is none); and whenever some entry matches the symptom,
  the entries reported (the narrowed ones, or all the matched ones when the narrowing
  leaves none) are not empty, so the answer is a diagnosis report.
\<close>

theorem feature_hint_fallback:
  assumes "getArg args ''symptom'' = JStr s" and "s \<noteq> []"
    and "getArg args ''feature'' = JStr f" and "f \<noteq> []"
  shows "(let matched = matchedIssues toLowerCase s;
              narrowed = filter (\<lambda>i. sublist f (toLowerCase (title i)) \<or>
                                     (\<exists>k \<in> set (symptoms i). sublist f k)) matched;
              reported = (if narrowed = [] then matched else narrowed);
              platform = getArg args ''platform''
          in (narrowed = [] \<longrightarrow>
              diagnoseIssue toLowerCase args =
                Inr (textContent
                  (if matched = []
                   then buildGenericDiagnosis s (JStr f) (getArg args ''errorMessage'') platform
                   else buildDiagnosisOutput matched platform))) \<and>
             (matched \<noteq> [] \<longrightarrow>
              reported \<noteq> [] \<and>
              diagnoseIssue toLowerCase args =
                Inr (textContent (buildDiagnosisOutput reported platform))))"
proof -
  let ?feat = "JStr f"
  let ?m = "matchedIssues toLowerCase s"
  let ?n = "filter (\<lambda>i. sublist f (toLowerCase (title i)) \<or>
      (\<exists>k \<in> set (symptoms i). sublist f k)) ?m"
  let ?r = "if ?n = [] then ?m else ?n"
  let ?p = "getArg args ''platform''"
  have t: "truthy ?feat" using assms(4) by simp
  have fi: "featureIssues toLowerCase s ?feat = ?n"
    using featureIssues_filter [OF t] by simp
  have rel: "relevantIssues toLowerCase s ?feat = ?r"
    by (cases "?n = []") (simp_all add: relevantIssues_def fi)
  have d: "diagnoseIssue toLowerCase args =
      Inr (textContent
        (if ?r = []
         then buildGenericDiagnosis s ?feat (getArg args ''errorMessage'') ?p
         else buildDiagnosisOutput ?r ?p))"
    using diagnoseIssue_string [OF assms(1,2)] by (simp only: assms(3) rel)
  have a: "diagnoseIssue toLowerCase args =
      Inr (textContent
        (if ?m = []
         then buildGenericDiagnosis s ?feat (getArg args ''errorMessage'') ?p
         else buildDiagnosisOutput ?m ?p))"
    if n: "?n = []"
  proof -
    from n have e: "?r = ?m" by simp
    show ?thesis unfolding d e by (rule refl)
  qed
  have b: "?r \<noteq> [] \<and> diagnoseIssue toLowerCase args = Inr (textContent (buildDiagnosisOutput ?r ?p))"
    if m: "?m \<noteq> []"
  proof -
    from m have r: "?r \<noteq> []" by simp
    from r have "diagnoseIssue toLowerCase args = Inr (textContent (buildDiagnosisOutput ?r ?p))"
      unfolding d by (simp only: if_False)
    with r show ?thesis by (rule conjI)
  qed
  from a b show ?thesis unfolding Let_def by blast
qed

theorem feature_hint_fallback_witness:
  "diagnoseIssue toLowerCaseASCII
     [''symptom'' \<mapsto> JStr ''token is null'', ''feature'' \<mapsto> JStr ''device''] =
     Inr (textContent (buildDiagnosisOutput [knownIssues_2] JUndefined)) \<and>
   title knownIssues_2 = ''Push token is null''"
proof -
  let ?args = "[''symptom'' \<mapsto> JStr ''token is null'', ''feature'' \<mapsto> JStr ''device'']"
  have s: "getArg ?args ''symptom'' = JStr ''token is null''" by (simp add: getArg_def)
  have f: "getArg ?args ''feature'' = JStr ''device''" by (simp add: getArg_def)
  have p: "getArg ?args ''platform'' = JUndefined" by (simp add: getArg_def)
  have n: "filter (\<lambda>i. sublist ''device'' (toLowerCaseASCII (title i)) \<or>
             (\<exists>k \<in> set (symptoms i). sublist ''device'' k)) [knownIssues_2] = []"
    unfolding includesStr_sublist [symmetric] by (simp add: knownIssues_2_def case_defs)
  have t: "title knownIssues_2 = ''Push token is null''" by (simp add: knownIssues_2_def)
  from feature_hint_fallback [OF s _ f, where toLowerCase = toLowerCaseASCII]
  have "diagnoseIssue toLowerCaseASCII ?args =
      Inr (textContent (buildDiagnosisOutput [knownIssues_2] JUndefined))"
    unfolding Let_def matchedIssues_token_is_null n p by simp
  with t show ?thesis by (simp only: simp_thms)
qed

text \<open>
  C2. For a non-empty symptom string \<open>s\<close>, the candidates are exactly the catalogue
  entries one of whose keywords, lowercased, occurs as a substring of the lowercased \<open>s\<close>,
  in catalogue order. With no feature hint and some candidate, \<^verbatim>\<open>diagnoseIssue\<close> returns
  the diagnosis report of the specification for the candidates. With a feature hint that
  matches, it returns that report for the candidates the hint keeps (those with the
  feature in the lowercased title or in a keyword), not for all the candidates. The
  report renders the first three of its entries, in catalogue order, each with its title
  heading, causes, solutions and fenced example, contains each of these titles, and ends
  with the closing note.
\<close>

theorem diagnosis_report:
  assumes "getArg args ''symptom'' = JStr s" and "s \<noteq> []"
  shows "(let feature = getArg args ''feature''; platform = getArg args ''platform'';
              candidates = filter (\<lambda>i. \<exists>k \<in> set (symptoms i).
                                     sublist (toLowerCase k) (toLowerCase s)) knownIssues;
              kept = filter (\<lambda>i. sublist (js_to_string feature) (toLowerCase (title i)) \<or>
                                 (\<exists>k \<in> set (symptoms i). sublist (js_to_string feature) k))
                            candidates
          in matchedIssues toLowerCase s = candidates \<and>
             (\<not> truthy feature \<and> candidates \<noteq> [] \<longrightarrow>
              diagnoseIssue toLowerCase args = Inr (textContent (diagnosisReport candidates platform))) \<and>
             (truthy feature \<and> kept \<noteq> [] \<longrightarrow>
              diagnoseIssue toLowerCase args = Inr (textContent (diagnosisReport kept platform))) \<and>
             subseq kept candidates \<and> subseq candidates knownIssues \<and>
             (\<forall>cs. (\<forall>i \<in> set (take 3 cs).
                      sublist (''### '' @ title i @ ''\<newline>'') (diagnosisReport cs platform)) \<and>
                   suffix closingNote (diagnosisReport cs platform)))"
proof -
  let ?f = "getArg args ''feature''"
  let ?p = "getArg args ''platform''"
  let ?c = "filter (\<lambda>i. \<exists>k \<in> set (symptoms i). sublist (toLowerCase k) (toLowerCase s))
      knownIssues"
  let ?k = "filter (\<lambda>i. sublist (js_to_string ?f) (toLowerCase (title i)) \<or>
      (\<exists>k \<in> set (symptoms i). sublist (js_to_string ?f) k)) ?c"
  have m: "matchedIssues toLowerCase s = ?c" by (rule matchedIssues_filter)
  have d0: "diagnoseIssue toLowerCase args = Inr (textContent (diagnosisReport ?c ?p))"
    if "\<not> truthy ?f" and ne: "?c \<noteq> []"
  proof -
    from that have "relevantIssues toLowerCase s ?f = ?c"
      by (simp add: relevantIssues_def featureIssues_def m)
    with ne show ?thesis
      by (simp add: diagnoseIssue_string [OF assms] buildDiagnosisOutput_report)
  qed
  have d1: "diagnoseIssue toLowerCase args = Inr (textContent (diagnosisReport ?k ?p))"
    if t: "truthy ?f" and ne: "?k \<noteq> []"
  proof -
    have "featureIssues toLowerCase s ?f = ?k"
      unfolding featureIssues_filter [OF t] m by (rule refl)
    with ne have "relevantIssues toLowerCase s ?f = ?k" by (simp add: relevantIssues_def)
    with ne show ?thesis
      by (simp add: diagnoseIssue_string [OF assms] buildDiagnosisOutput_report)
  qed
  have s1: "subseq ?k ?c" by (rule subseq_filter_left)
  have s2: "subseq ?c knownIssues" by (rule subseq_filter_left)
  have r: "\<forall>cs. (\<forall>i \<in> set (take 3 cs).
                 sublist (''### '' @ title i @ ''\<newline>'') (diagnosisReport cs ?p)) \<and>
               suffix closingNote (diagnosisReport cs ?p)"
    using title_in_report suffix_closingNote by blast
  from m d0 d1 s1 s2 r show ?thesis unfolding Let_def by blast
qed

theorem diagnosis_report_witness:
  "diagnoseIssue toLowerCaseASCII [''symptom'' \<mapsto> JStr ''token is null''] =
     Inr (textContent (diagnosisReport [knownIssues_2] JUndefined)) \<and>
   sublist ''### Push token is null\<newline>'' (diagnosisReport [knownIssues_2] JUndefined)"
proof -
  let ?args = "[''symptom'' \<mapsto> JStr ''token is null'']"
  have s: "getArg ?args ''symptom'' = JStr ''token is null''" by (simp add: getArg_def)
  have f: "getArg ?args ''feature'' = JUndefined" by (simp add: getArg_def)
  have p: "getArg ?args ''platform'' = JUndefined" by (simp add: getArg_def)
  have t: "''### '' @ title knownIssues_2 @ ''\<newline>'' = ''### Push token is null\<newline>''"
    by (simp add: knownIssues_2_def)
  note c = matchedIssues_token_is_null [unfolded matchedIssues_filter]
  from diagnosis_report [OF s, where toLowerCase = toLowerCaseASCII]
  have "diagnoseIssue toLowerCaseASCII ?args =
      Inr (textContent (diagnosisReport [knownIssues_2] JUndefined)) \<and>
    (\<forall>i \<in> set (take 3 [knownIssues_2]).
       sublist (''### '' @ title i @ ''\<newline>'') (diagnosisReport [knownIssues_2] JUndefined))"
    unfolding Let_def f p c by simp
  then show ?thesis using t by simp
qed

text \<open>
  C2 does not hold for the candidates themselves when a hint matches: the symptom
  \<^verbatim>\<open>Camera not working in my browser\<close> has the first and the fifth entry as candidates,
  the hint \<^verbatim>\<open>camera\<close> keeps the fifth only, and the report does not contain the title of
  the first.
\<close>

theorem hint_drops_candidate:
  "matchedIssues toLowerCaseASCII ''Camera not working in my browser'' =
     [knownIssues_0, knownIssues_4] \<and>
   diagnoseIssue toLowerCaseASCII
     [''symptom'' \<mapsto> JStr ''Camera not working in my browser'', ''feature'' \<mapsto> JStr ''camera''] =
     Inr (textContent (diagnosisReport [knownIssues_4] JUndefined)) \<and>
   \<not> sublist (title knownIssues_0) (diagnosisReport [knownIssues_4] JUndefined)"
  using matchedIssues_camera_not_working camera_hint_report camera_hint_omits_first
  by (simp only: simp_thms)

text \<open>
  C3. For the feature \<^verbatim>\<open>camera\<close> and a code string that contains \<^verbatim>\<open>.takePicture(\<close> and
  nowhere \<^verbatim>\<open>requestPermission\<close>, the analysis has \<open>hasPermissionRequest\<close> false, and its
  issues are the protected-method issue for \<^verbatim>\<open>takePicture\<close>, then the issue that no
  \<^verbatim>\<open>requestPermission()\<close> call was found, then the denied-handling issue if that applies;
  exactly one of them mentions \<^verbatim>\<open>takePicture\<close>.
\<close>

theorem camera_without_request:
  assumes "includesStr code ''.takePicture(''" and "\<not> includesStr code ''requestPermission''"
  shows "\<exists>a. analyzePermissionPatterns (JStr code) (JStr ''camera'') = Inr a \<and>
             \<not> hasPermissionRequest a \<and>
             issues a = [protectedMethodIssue ''takePicture'', noRequestIssue ''camera''] @
                        (if hasDeniedHandling a then [] else [noDeniedIssue]) \<and>
             length (filter (\<lambda>m. includesStr m ''takePicture'') (issues a)) = 1"
proof -
  let ?a = "analyzeCode code ''camera'' [''takePicture'']"
  have r: "\<not> hasPermissionRequest ?a" using assms(2) by (simp add: analyzeCode_request)
  have i: "issues ?a = [protectedMethodIssue ''takePicture'', noRequestIssue ''camera''] @
                        (if hasDeniedHandling ?a then [] else [noDeniedIssue])"
    using assms r by (subst analyzeCode_issues) simp
  have n: "length (filter (\<lambda>m. includesStr m ''takePicture'') (issues ?a)) = 1"
    by (subst i) (simp add: issue_texts)
  from r i n show ?thesis
    unfolding analyzePermissionPatterns_camera by blast
qed

theorem camera_without_request_witness:
  "\<exists>a. analyzePermissionPatterns (JStr ''cam.takePicture()'') (JStr ''camera'') = Inr a \<and>
        \<not> hasPermissionRequest a \<and>
        issues a = [protectedMethodIssue ''takePicture'', noRequestIssue ''camera''] @
                   (if hasDeniedHandling a then [] else [noDeniedIssue]) \<and>
        length (filter (\<lambda>m. includesStr m ''takePicture'') (issues a)) = 1"
proof -
  have c: "includesStr ''cam.takePicture()'' ''.takePicture(''" by simp
  have r: "\<not> includesStr ''cam.takePicture()'' ''requestPermission''" by simp
  from camera_without_request [OF c r] show ?thesis .
qed

text \<open>
  C4. For a code string that contains both \<^verbatim>\<open>requestPermission\<close> and \<^verbatim>\<open>'denied'\<close>, and each
  of the features \<^verbatim>\<open>push\<close>, \<^verbatim>\<open>camera\<close>, \<^verbatim>\<open>location\<close>, the analysis has
  \<open>hasPermissionRequest\<close> and \<open>hasDeniedHandling\<close> true and no issue at all: neither of
  the two default issues, nor a protected-method issue.
\<close>

theorem request_and_denied:
  assumes "includesStr code ''requestPermission''"
    and "includesStr code ([CHR 0x27] @ ''denied'' @ [CHR 0x27])"
    and "feature \<in> {''push'', ''camera'', ''location''}"
  shows "\<exists>a. analyzePermissionPatterns (JStr code) (JStr feature) = Inr a \<and>
             hasPermissionRequest a \<and> hasDeniedHandling a \<and> issues a = []"
proof -
  from analyzePermissionPatterns_valid [OF assms(3)] obtain ms
    where a: "analyzePermissionPatterns (JStr code) (JStr feature) =
                Inr (analyzeCode code feature ms)"
    by blast
  let ?a = "analyzeCode code feature ms"
  have r: "hasPermissionRequest ?a" using assms(1) by (simp add: analyzeCode_request)
  have d: "hasDeniedHandling ?a" using assms(2) by (simp only: analyzeCode_denied simp_thms)
  have i: "issues ?a = []"
    using assms(1) r d by (subst analyzeCode_issues) simp
  from a r d i show ?thesis by blast
qed

theorem request_and_denied_witness:
  "\<exists>a. analyzePermissionPatterns
          (JStr (''s = requestPermission(); if (s === '' @ [CHR 0x27] @ ''denied'' @ [CHR 0x27] @ '') {}''))
          (JStr ''push'') = Inr a \<and>
        hasPermissionRequest a \<and> hasDeniedHandling a \<and> issues a = []"
proof -
  let ?code = "''s = requestPermission(); if (s === '' @ [CHR 0x27] @ ''denied'' @ [CHR 0x27] @ '') {}''"
  have c: "includesStr ?code ''requestPermission''" by simp
  have d: "includesStr ?code ([CHR 0x27] @ ''denied'' @ [CHR 0x27])" by simp
  have f: "''push'' \<in> {''push'', ''camera'', ''location''}" by simp
  from request_and_denied [OF c d f] show ?thesis .
qed

text \<open>
  C5. For every argument record each of whose fields is absent or a string,
  \<^verbatim>\<open>diagnoseIssue\<close> returns normally with a text that is not empty, and so does
  \<^verbatim>\<open>checkPermissions\<close> when \<open>feature\<close> is not the name of a property of
  \<^verbatim>\<open>Object.prototype\<close>. A field of another type can make the call raise: with the
  symptom \<^verbatim>\<open>true\<close>, \<^verbatim>\<open>diagnoseIssue\<close> raises a \<^verbatim>\<open>TypeError\<close>.
\<close>

theorem entry_points_return:
  assumes "\<forall>k. getArg args k = JUndefined \<or> (\<exists>s. getArg args k = JStr s)"
  shows "(\<exists>t. t \<noteq> [] \<and> diagnoseIssue toLowerCase args = Inr (textContent t)) \<and>
         (js_to_string (getArg args ''feature'') \<notin> set objectPrototypeKeys \<longrightarrow>
          (\<exists>t. t \<noteq> [] \<and> checkPermissions args = Inr (textContent t)))"
  using assms diagnoseIssue_returns [where args = args and toLowerCase = toLowerCase] checkPermissions_returns [of args]
  by blast

theorem entry_points_return_witness:
  "(\<exists>t. t \<noteq> [] \<and>
        diagnoseIssue toLowerCaseASCII [''symptom'' \<mapsto> JStr ''crash'', ''code'' \<mapsto> JStr ''x'',
                       ''feature'' \<mapsto> JStr ''bluetooth''] = Inr (textContent t)) \<and>
   (\<exists>t. t \<noteq> [] \<and>
        checkPermissions [''symptom'' \<mapsto> JStr ''crash'', ''code'' \<mapsto> JStr ''x'',
                          ''feature'' \<mapsto> JStr ''bluetooth''] = Inr (textContent t))"
proof -
  let ?args = "[''symptom'' \<mapsto> JStr ''crash'', ''code'' \<mapsto> JStr ''x'',
                ''feature'' \<mapsto> JStr ''bluetooth'']"
  have a: "\<forall>k. getArg ?args k = JUndefined \<or> (\<exists>s. getArg ?args k = JStr s)"
    by (simp add: getArg_def)
  have i: "js_to_string (getArg ?args ''feature'') \<notin> set objectPrototypeKeys"
    by (simp add: getArg_def objectPrototypeKeys_def)
  from entry_points_return [OF a, where toLowerCase = toLowerCaseASCII] i show ?thesis by blast
qed

text \<open>
  C5 does not hold for every argument record: a symptom that is the boolean \<^verbatim>\<open>true\<close> has
  no \<^verbatim>\<open>toLowerCase\<close>, and the call raises.
\<close>

theorem malformed_symptom_raises:
  "diagnoseIssue toLowerCaseASCII [''symptom'' \<mapsto> JBool True] = Inl TypeError"
  by (simp add: diagnoseIssue_def getArg_def)

text \<open>
  C6. When \<open>symptom\<close> is absent or the empty string, \<^verbatim>\<open>diagnoseIssue\<close> returns normally,
  and its response is the one message that asks for the symptom, whatever the other
  arguments are.
\<close>

theorem diagnose_empty_symptom:
  "getArg args ''symptom'' = JUndefined \<or> getArg args ''symptom'' = JStr [] \<Longrightarrow>
   diagnoseIssue toLowerCase args = Inr (textContent symptomPrompt)"
  by (auto simp: diagnoseIssue_def symptomPrompt_def)

theorem diagnose_empty_symptom_witness:
  "getArg [''symptom'' \<mapsto> JStr [], ''feature'' \<mapsto> JStr ''push''] ''symptom'' = JStr [] \<and>
   diagnoseIssue toLowerCaseASCII [''symptom'' \<mapsto> JStr [], ''feature'' \<mapsto> JStr ''push''] =
     Inr (textContent symptomPrompt)"
  using diagnose_empty_symptom
    [where args = "[''symptom'' \<mapsto> JStr [], ''feature'' \<mapsto> JStr ''push'']"
       and toLowerCase = toLowerCaseASCII]
  by (simp add: getArg_def)

text \<open>
  C7. For a non-empty symptom string that no catalogue entry matches, \<^verbatim>\<open>diagnoseIssue\<close>
  returns the generic report of the specification: it is not empty, it echoes the symptom
  and each of feature, error message and platform that was supplied, and it ends with the
  fixed text made of the five-step checklist and the debug-code snippet.
\<close>

theorem generic_fallback:
  assumes "getArg args ''symptom'' = JStr s" and "s \<noteq> []"
    and "matchedIssues toLowerCase s = []"
  shows "(let feature = getArg args ''feature''; errorMessage = getArg args ''errorMessage'';
              platform = getArg args ''platform'';
              report = genericReport s feature errorMessage platform
          in diagnoseIssue toLowerCase args = Inr (textContent report) \<and>
             report \<noteq> [] \<and>
             sublist (''**Symptom:** '' @ s @ ''\<newline>'') report \<and>
             (truthy feature \<longrightarrow> sublist (''**Feature:** '' @ js_to_string feature) report) \<and>
             (truthy errorMessage \<longrightarrow> sublist (''**Error:** '' @ js_to_string errorMessage) report) \<and>
             (truthy platform \<longrightarrow> sublist (''**Platform:** '' @ js_to_string platform) report) \<and>
             suffix (join ''\<newline>'' (['''', ''### General Troubleshooting Steps\<newline>''] @
                       troubleshootingChecklist @ ['''', ''### Debug Code\<newline>''] @ debugCodeSnippet @
                       ['''', ''Please provide more details (error messages, code snippets) for a more specific diagnosis.'']))
                    report \<and>
             length troubleshootingChecklist = 5)"
proof -
  let ?f = "getArg args ''feature''"
  let ?e = "getArg args ''errorMessage''"
  let ?p = "getArg args ''platform''"
  let ?r = "genericReport s ?f ?e ?p"
  from assms(3) have "relevantIssues toLowerCase s ?f = []" by (simp only: relevantIssues_Nil)
  then have d: "diagnoseIssue toLowerCase args = Inr (textContent ?r)"
    by (simp add: diagnoseIssue_string [OF assms(1,2)] buildGenericDiagnosis_report)
  have ff: "sublist (''**Feature:** '' @ js_to_string ?f) ?r" if "truthy ?f"
    by (rule echo_in_genericReport) (simp add: echoField_def that)
  have fe: "sublist (''**Error:** '' @ js_to_string ?e) ?r" if "truthy ?e"
    by (rule echo_in_genericReport) (simp add: echoField_def that)
  have fp: "sublist (''**Platform:** '' @ js_to_string ?p) ?r" if "truthy ?p"
    by (rule echo_in_genericReport) (simp add: echoField_def that)
  have n: "length troubleshootingChecklist = 5" by (simp add: troubleshootingChecklist_def)
  from d ff fe fp n genericReport_nonempty [of s ?f ?e ?p]
    symptom_in_genericReport [of s ?f ?e ?p] genericReport_suffix [of s ?f ?e ?p]
  show ?thesis
    unfolding Let_def by blast
qed

theorem generic_fallback_witness:
  "diagnoseIssue toLowerCaseASCII
     [''symptom'' \<mapsto> JStr ''xyzzy quux'', ''platform'' \<mapsto> JStr ''ios''] =
     Inr (textContent (genericReport ''xyzzy quux'' JUndefined JUndefined (JStr ''ios''))) \<and>
   sublist ''**Platform:** ios'' (genericReport ''xyzzy quux'' JUndefined JUndefined (JStr ''ios''))"
proof -
  let ?args = "[''symptom'' \<mapsto> JStr ''xyzzy quux'', ''platform'' \<mapsto> JStr ''ios'']"
  have s: "getArg ?args ''symptom'' = JStr ''xyzzy quux''" by (simp add: getArg_def)
  have f: "getArg ?args ''feature'' = JUndefined" by (simp add: getArg_def)
  have e: "getArg ?args ''errorMessage'' = JUndefined" by (simp add: getArg_def)
  have p: "getArg ?args ''platform'' = JStr ''ios''" by (simp add: getArg_def)
  have t: "truthy (JStr ''ios'')" by simp
  have j: "''**Platform:** '' @ js_to_string (JStr ''ios'') = ''**Platform:** ios''" by simp
  from generic_fallback [OF s _ matchedIssues_xyzzy, unfolded Let_def f e p] t j show ?thesis
    by (simp only: list.distinct simp_thms)
qed

text \<open>
  C8. A feature outside \<^verbatim>\<open>push\<close>, \<^verbatim>\<open>camera\<close>, \<^verbatim>\<open>location\<close> is to be answered with the
  message that the feature is invalid, and never with an exception. For a feature that is
  the name of a property every object inherits, such as \<^verbatim>\<open>constructor\<close>, and a code that
  is not empty, \<^verbatim>\<open>checkPermissions\<close> raises a \<^verbatim>\<open>TypeError\<close> instead: the guard
  \<^verbatim>\<open>!featureApiMap[feature]\<close> finds the inherited property, and the analysis then iterates
  over \<open>protectedMethods\<close>, which that property does not have.
\<close>

theorem inherited_feature_raises:
  assumes "truthy (getArg args ''code'')"
    and "js_to_string (getArg args ''feature'') \<in> set objectPrototypeKeys"
  shows "checkPermissions args = Inl TypeError"
  using assms(1) inherited_truthy [OF assms(2)] getProp_inherited [OF assms(2)]
  by (simp add: checkPermissions_def Let_def analyzePermissionPatterns_def)

theorem inherited_feature_raises_witness:
  "checkPermissions [''code'' \<mapsto> JStr ''x'', ''feature'' \<mapsto> JStr ''constructor''] = Inl TypeError"
proof -
  let ?args = "[''code'' \<mapsto> JStr ''x'', ''feature'' \<mapsto> JStr ''constructor'']"
  have c: "truthy (getArg ?args ''code'')" by (simp add: getArg_def)
  have k: "js_to_string (getArg ?args ''feature'') \<in> set objectPrototypeKeys"
    by (simp add: getArg_def objectPrototypeKeys_def)
  from inherited_feature_raises [OF c k] show ?thesis .
qed

text \<open>
  C9. Every entry of the catalogue \<open>knownIssues\<close> has at least one symptom keyword, one
  cause and one solution. Its keywords are lowercase except four that quote an API name
  (\<^verbatim>\<open>requestPermission returns denied\<close>, \<^verbatim>\<open>getToken returns null\<close>,
  \<^verbatim>\<open>isAvailable returns false\<close>, \<^verbatim>\<open>takePicture returns null\<close>); the matcher lowercases
  each keyword before it compares. The second entry's keyword
  \<^verbatim>\<open>requestPermission returns denied\<close> shows that not every keyword is lowercase.
\<close>

theorem catalogue_entries:
  "\<forall>i \<in> set knownIssues.
     symptoms i \<noteq> [] \<and> causes i \<noteq> [] \<and> solutions i \<noteq> [] \<and>
     (\<forall>k \<in> set (symptoms i).
        toLowerCaseASCII k = k \<or>
        k \<in> {''requestPermission returns denied'', ''getToken returns null'',
              ''isAvailable returns false'', ''takePicture returns null''})"
  by code_simp

theorem catalogue_entries_witness:
  "knownIssues_1 \<in> set knownIssues \<and> symptoms knownIssues_1 \<noteq> [] \<and>
   causes knownIssues_1 \<noteq> [] \<and> solutions knownIssues_1 \<noteq> []"
proof -
  have m: "knownIssues_1 \<in> set knownIssues" by (simp add: knownIssues_def)
  from catalogue_entries m show ?thesis by blast
qed

text \<open>
  C9 does not hold with every keyword lowercase: a keyword of the second entry has a
  capital letter.
\<close>

theorem keyword_not_lowercase:
  "''requestPermission returns denied'' \<in> set (symptoms (knownIssues ! 1)) \<and>
   toLowerCaseASCII ''requestPermission returns denied'' \<noteq> ''requestPermission returns denied''"
  by (simp add: knownIssues_def knownIssues_1_def mixed_case_keyword)

text \<open>
  C10. When \<open>code\<close> is the empty string, as when it is absent, \<^verbatim>\<open>checkPermissions\<close> answers
  with the message that asks for both parameters, whatever \<open>feature\<close> is; no analysis is
  made.
\<close>

theorem check_empty_code:
  "getArg args ''code'' = JUndefined \<or> getArg args ''code'' = JStr [] \<Longrightarrow>
   checkPermissions args = Inr (textContent missingParameters)"
  by (auto simp: checkPermissions_def missingParameters_def)

theorem check_empty_code_witness:
  "getArg [''code'' \<mapsto> JStr [], ''feature'' \<mapsto> JStr ''camera''] ''code'' = JStr [] \<and>
   checkPermissions [''code'' \<mapsto> JStr [], ''feature'' \<mapsto> JStr ''camera''] =
     Inr (textContent missingParameters)"
  using check_empty_code [of "[''code'' \<mapsto> JStr [], ''feature'' \<mapsto> JStr ''camera'']"]
  by (simp add: getArg_def)

end
